theory Spec2Isabelle
  imports Complex_Main
begin

section \<open>The document-assembly engine of conversionUtils.ts\<close>

text \<open>
  The embedding follows \<^verbatim>\<open>src/utils/conversionUtils.ts\<close>. JavaScript numbers are
  modelled as exact reals (rounding of doubles is not modelled), JavaScript strings as
  HOL strings, a rejected promise as the left summand of a sum type. The progress
  callback and \<^verbatim>\<open>console.error\<close> are modelled by the lists of the values they
  receive, in call order.
\<close>

subsection \<open>Input files\<close>

text \<open>
  An \<^verbatim>\<open>UploadedFile\<close> is read by the strategies through three asynchronous operations
  of the browser and of pdf-lib. The record holds the display name, the MIME type of the
  underlying \<^verbatim>\<open>File\<close>, and the outcome of each operation, \<open>None\<close> standing for a
  rejected promise:
  \<^item> \<open>uf_image\<close>: loading the file into an \<^verbatim>\<open>Image\<close> (\<^verbatim>\<open>onload\<close> with the pixel
    width and height, or \<^verbatim>\<open>onerror\<close>);
  \<^item> \<open>uf_text\<close>: reading the bytes and decoding them as UTF-8
    (\<^verbatim>\<open>file.text()\<close>, or \<^verbatim>\<open>arrayBuffer()\<close> followed by a non-fatal
    \<^verbatim>\<open>TextDecoder\<close>);
  \<^item> \<open>uf_pdf\<close>: \<^verbatim>\<open>arrayBuffer()\<close> followed by \<^verbatim>\<open>PDFDocument.load\<close>, giving the
    pages of the parsed document.
\<close>

text \<open>
  A page of a pdf-lib document: its size, its content as parsed (opaque to the code),
  and the texts drawn on it afterwards with \<^verbatim>\<open>page.drawText\<close>
  (text, x, y, size, colour).
\<close>

datatype drawn_text = DrawText string real real nat "real \<times> real \<times> real"

record pdf_page =
  pg_width :: real
  pg_height :: real
  pg_content :: string
  pg_drawn :: "drawn_text list"

record uploaded_file =
  uf_name :: string
  uf_type :: string
  uf_image :: "(nat \<times> nat) option"
  uf_text :: "string option"
  uf_pdf :: "pdf_page list option"

subsection \<open>Image placement (convertImagesToPDF, lines 42 to 56)\<close>

record layout =
  finalWidth :: real
  finalHeight :: real
  originX :: real
  originY :: real

definition imageLayout :: "real \<Rightarrow> real \<Rightarrow> real \<Rightarrow> real \<Rightarrow> real \<Rightarrow> layout" where
  "imageLayout imgWidth imgHeight pageWidth pageHeight margin =
     (let imgAspectRatio = imgWidth / imgHeight;
          pageAspectRatio = (pageWidth - 2 * margin) / (pageHeight - 2 * margin);
          fw = (if imgAspectRatio > pageAspectRatio
                then pageWidth - 2 * margin
                else (pageHeight - 2 * margin) * imgAspectRatio);
          fh = (if imgAspectRatio > pageAspectRatio
                then (pageWidth - 2 * margin) / imgAspectRatio
                else pageHeight - 2 * margin)
      in \<lparr>finalWidth = fw, finalHeight = fh,
          originX = (pageWidth - fw) / 2, originY = (pageHeight - fh) / 2\<rparr>)"

subsection \<open>Documents of the two libraries\<close>

text \<open>
  A jsPDF document is the list of its pages, each page the list of the drawing calls made
  on it. \<^verbatim>\<open>new jsPDF()\<close> starts with one empty page (which is why the code keeps
  \<^verbatim>\<open>isFirstPage\<close>); \<^verbatim>\<open>addPage\<close> appends a page, and every drawing call goes
  to the last page, which always exists. The code sets font size, text colour and line width right before the
  calls that use them, so each operation carries them:
  \<open>Text size colour text x y\<close>, \<open>Line width x1 y1 x2 y2\<close>, \<open>AddImage x y w h\<close>.
\<close>

datatype js_op =
    AddImage real real real real
  | Text nat "nat \<times> nat \<times> nat" string real real
  | Line real real real real real

type_synonym js_doc = "js_op list list"

definition new_jsPDF :: js_doc where
  "new_jsPDF = [[]]"

definition addPage :: "js_doc \<Rightarrow> js_doc" where
  "addPage d = d @ [[]]"

definition draw :: "js_op \<Rightarrow> js_doc \<Rightarrow> js_doc" where
  "draw c d = butlast d @ [last d @ [c]]"

text \<open>
  A pdf-lib document is the list of its pages; \<^verbatim>\<open>PDFDocument.create()\<close> has none.
  \<^verbatim>\<open>save()\<close> is called without options, and the library's default
  \<^verbatim>\<open>addDefaultPage = true\<close> then adds one blank A4 page to a document that has no
  page before it is serialised.
\<close>

definition blank_page :: pdf_page where
  "blank_page = \<lparr>pg_width = 595.28, pg_height = 841.89, pg_content = [], pg_drawn = []\<rparr>"

definition save :: "pdf_page list \<Rightarrow> pdf_page list" where
  "save d = (if d = [] then [blank_page] else d)"

datatype blob = JsPdfBlob js_doc | PdfLibBlob "pdf_page list"

fun page_count :: "blob \<Rightarrow> nat" where
  "page_count (JsPdfBlob d) = length d"
| "page_count (PdfLibBlob d) = length d"

datatype error = Error string | LoadFailure

subsection \<open>What a call does: progress, console, result\<close>

record run_log =
  progress :: "real list"
  console :: "string list"

record outcome = run_log +
  result :: "error + blob"

record js_state = run_log +
  doc :: js_doc
  isFirstPage :: bool

record lib_state = run_log +
  pdfDoc :: "pdf_page list"

definition onProgress :: "real \<Rightarrow> 'a run_log_scheme \<Rightarrow> 'a run_log_scheme" where
  "onProgress v s = s\<lparr>progress := progress s @ [v]\<rparr>"

definition console_error :: "string \<Rightarrow> 'a run_log_scheme \<Rightarrow> 'a run_log_scheme" where
  "console_error msg s = s\<lparr>console := console s @ [msg]\<rparr>"

text \<open>
  \<^verbatim>\<open>console.error\<close> is called with a message and the caught error; the console of the
  model keeps the message.
\<close>

text \<open>The loop \<^verbatim>\<open>for (let i = 0; i < xs.length; i++) { const x = xs[i]; ... }\<close>.\<close>

fun for_each :: "(nat \<Rightarrow> 'a \<Rightarrow> 's \<Rightarrow> 's) \<Rightarrow> nat \<Rightarrow> 'a list \<Rightarrow> 's \<Rightarrow> 's" where
  "for_each step i [] s = s"
| "for_each step i (x # xs) s = for_each step (Suc i) xs (step i x s)"

text \<open>
  What the strategies take from jsPDF besides the document: the page size of
  \<^verbatim>\<open>pdf.internal.pageSize\<close> and the line breaking of \<^verbatim>\<open>pdf.splitTextToSize\<close>.
\<close>

record env =
  pageWidth :: real
  pageHeight :: real
  splitTextToSize :: "string \<Rightarrow> real \<Rightarrow> string list"

subsection \<open>convertImagesToPDF\<close>

text \<open>
  One pass of the loop body for file \<open>i\<close> of \<open>n\<close>. A load error is thrown before any
  page is opened. A loaded image whose width or height is 0 gives an empty canvas (and
  \<^verbatim>\<open>0 / 0\<close> coordinates); \<^verbatim>\<open>pdf.addImage\<close> throws on it, after the page was opened.
  Both are caught by the \<^verbatim>\<open>catch\<close> of the loop body.
\<close>

definition image_step :: "env \<Rightarrow> nat \<Rightarrow> nat \<Rightarrow> uploaded_file \<Rightarrow> js_state \<Rightarrow> js_state" where
  "image_step e n i file s =
     (let s1 = onProgress (real i / real n * 90) s in
      case uf_image file of
        None \<Rightarrow> console_error (''Error processing image '' @ uf_name file @ '':'') s1
      | Some (w, h) \<Rightarrow>
          (let l = imageLayout (real w) (real h) (pageWidth e) (pageHeight e) 10;
               s2 = (if isFirstPage s1 then s1\<lparr>isFirstPage := False\<rparr>
                     else s1\<lparr>doc := addPage (doc s1)\<rparr>)
           in if w = 0 \<or> h = 0
              then console_error (''Error processing image '' @ uf_name file @ '':'') s2
              else s2\<lparr>doc :=
                     draw (Text 8 (128, 128, 128) (uf_name file) 10 (pageHeight e - 5))
                       (draw (AddImage (originX l) (originY l) (finalWidth l) (finalHeight l))
                          (doc s2))\<rparr>))"

definition start_js :: js_state where
  "start_js = \<lparr>progress = [], console = [], doc = new_jsPDF, isFirstPage = True\<rparr>"

definition finish_js :: "js_state \<Rightarrow> outcome" where
  "finish_js s =
     (let s' = onProgress 100 s
      in \<lparr>progress = progress s', console = console s', result = Inr (JsPdfBlob (doc s'))\<rparr>)"

definition convertImagesToPDF :: "env \<Rightarrow> uploaded_file list \<Rightarrow> outcome" where
  "convertImagesToPDF e files =
     finish_js (for_each (image_step e (length files)) 0 files start_js)"

subsection \<open>convertTextToPDF and convertWordToPDF\<close>

text \<open>
  Lines 110 to 137 and 262 to 289 are the same code: open a page unless this is the first
  document, draw the title and the separator, then the lines of the body, 6 units apart
  from y = 45, moving to a new page (y = 20) when the next line would pass
  \<^verbatim>\<open>pageHeight - margin\<close>. The margin is 20.
\<close>

fun draw_lines :: "real \<Rightarrow> string list \<Rightarrow> real \<Rightarrow> js_doc \<Rightarrow> js_doc" where
  "draw_lines ph [] y d = d"
| "draw_lines ph (line # rest) y d =
     (if y + 6 > ph - 20
      then draw_lines ph rest (20 + 6) (draw (Text 10 (0, 0, 0) line 20 20) (addPage d))
      else draw_lines ph rest (y + 6) (draw (Text 10 (0, 0, 0) line 20 y) d))"

definition render_document :: "env \<Rightarrow> string \<Rightarrow> string \<Rightarrow> js_state \<Rightarrow> js_state" where
  "render_document e name content s =
     (let s1 = (if \<not> isFirstPage s then s\<lparr>doc := addPage (doc s)\<rparr>
                else s\<lparr>isFirstPage := False\<rparr>);
          d1 = draw (Text 16 (0, 0, 0) name 20 (20 + 10)) (doc s1);
          d2 = draw (Line 0.5 20 (20 + 15) (pageWidth e - 20) (20 + 15)) d1;
          lines = splitTextToSize e content (pageWidth e - 2 * 20)
      in s1\<lparr>doc := draw_lines (pageHeight e) lines (20 + 25) d2\<rparr>)"

definition text_step :: "env \<Rightarrow> nat \<Rightarrow> nat \<Rightarrow> uploaded_file \<Rightarrow> js_state \<Rightarrow> js_state" where
  "text_step e n i file s =
     (let s1 = onProgress (real i / real n * 90) s in
      case uf_text file of
        None \<Rightarrow> console_error (''Error processing text file '' @ uf_name file @ '':'') s1
      | Some text \<Rightarrow> render_document e (uf_name file) text s1)"

definition convertTextToPDF :: "env \<Rightarrow> uploaded_file list \<Rightarrow> outcome" where
  "convertTextToPDF e files =
     finish_js (for_each (text_step e (length files)) 0 files start_js)"

text \<open>
  The string functions of lines 249, 257 and 279: \<^verbatim>\<open>includes\<close>, \<^verbatim>\<open>endsWith\<close>,
  \<^verbatim>\<open>substring\<close>; \<open>readable\<close> is the complement of the class
  \<^verbatim>\<open>[^\x20-\x7E\n\r]\<close>, \<open>is_space\<close> is the class \<^verbatim>\<open>\s\<close> on the characters of
  the model (tab, line feed, vertical tab, form feed, carriage return, space, no-break
  space), \<open>collapse_spaces\<close> is \<^verbatim>\<open>replace(/\s+/g, ' ')\<close>.
\<close>

fun str_includes :: "string \<Rightarrow> string \<Rightarrow> bool" where
  "str_includes [] sub = (sub = [])"
| "str_includes (c # cs) sub = (take (length sub) (c # cs) = sub \<or> str_includes cs sub)"

definition endsWith :: "string \<Rightarrow> string \<Rightarrow> bool" where
  "endsWith s suf = (length suf \<le> length s \<and> drop (length s - length suf) s = suf)"

definition substring :: "string \<Rightarrow> nat \<Rightarrow> nat \<Rightarrow> string" where
  "substring s a b = take (b - a) (drop a s)"

definition readable :: "char \<Rightarrow> bool" where
  "readable c = ((32 \<le> (of_char c :: nat) \<and> (of_char c :: nat) \<le> 126)
                 \<or> (of_char c :: nat) = 10 \<or> (of_char c :: nat) = 13)"

definition is_space :: "char \<Rightarrow> bool" where
  "is_space c = ((of_char c :: nat) \<in> {9, 10, 11, 12, 13, 32, 160})"

function collapse_spaces :: "string \<Rightarrow> string" where
  "collapse_spaces [] = []"
| "collapse_spaces (c # cs) =
     (if is_space c then CHR '' '' # collapse_spaces (dropWhile is_space cs)
      else c # collapse_spaces cs)"
  by pat_completeness auto
termination
  by (relation "measure length") (auto simp: less_Suc_eq_le length_dropWhile_le)

definition trim :: "string \<Rightarrow> string" where
  "trim s = rev (dropWhile is_space (rev (dropWhile is_space s)))"

definition extract_readable :: "string \<Rightarrow> string" where
  "extract_readable rawText =
     trim (collapse_spaces (map (\<lambda>c. if readable c then c else CHR '' '') rawText))"

text \<open>
  Lines 248 to 260: the text of a Word file. Both branches read the file
  (\<^verbatim>\<open>arrayBuffer()\<close> or \<^verbatim>\<open>text()\<close>) and decode it as UTF-8 without failing on
  invalid bytes, so both start from the same decoded string.
\<close>

definition extract_text :: "uploaded_file \<Rightarrow> string \<Rightarrow> string" where
  "extract_text file rawText =
     (if str_includes (uf_type file) ''word'' \<or> endsWith (uf_name file) ''.docx''
      then extract_readable rawText else rawText)"

definition word_step :: "env \<Rightarrow> nat \<Rightarrow> nat \<Rightarrow> uploaded_file \<Rightarrow> js_state \<Rightarrow> js_state" where
  "word_step e n i file s =
     (let s1 = onProgress (real i / real n * 90) s in
      case uf_text file of
        None \<Rightarrow> console_error (''Error processing document '' @ uf_name file @ '':'') s1
      | Some rawText \<Rightarrow>
          (let text = extract_text file rawText
           in render_document e (uf_name file) (substring text 0 5000) s1))"

definition convertWordToPDF :: "env \<Rightarrow> uploaded_file list \<Rightarrow> outcome" where
  "convertWordToPDF e files =
     finish_js (for_each (word_step e (length files)) 0 files start_js)"

subsection \<open>mergePDFs\<close>

definition merge_step :: "nat \<Rightarrow> nat \<Rightarrow> uploaded_file \<Rightarrow> lib_state \<Rightarrow> lib_state" where
  "merge_step n i file s =
     (let s1 = onProgress (real i / real n * 90) s in
      case uf_pdf file of
        None \<Rightarrow> console_error (''Error processing PDF '' @ uf_name file @ '':'') s1
      | Some copiedPages \<Rightarrow> s1\<lparr>pdfDoc := pdfDoc s1 @ copiedPages\<rparr>)"

definition start_lib :: lib_state where
  "start_lib = \<lparr>progress = [], console = [], pdfDoc = []\<rparr>"

definition finish_lib :: "lib_state \<Rightarrow> outcome" where
  "finish_lib s =
     (let s' = onProgress 100 s
      in \<lparr>progress = progress s', console = console s',
          result = Inr (PdfLibBlob (save (pdfDoc s')))\<rparr>)"

definition mergePDFs :: "uploaded_file list \<Rightarrow> outcome" where
  "mergePDFs files = finish_lib (for_each (merge_step (length files)) 0 files start_lib)"

subsection \<open>splitPDF\<close>

fun show_nat :: "nat \<Rightarrow> string" where
  "show_nat n =
     (if n < 10 then [char_of (48 + n)]
      else show_nat (n div 10) @ [char_of (48 + n mod 10)])"

declare show_nat.simps [simp del]

definition page_label :: "nat \<Rightarrow> nat \<Rightarrow> string" where
  "page_label i pageCount = ''Page '' @ show_nat (i + 1) @ '' of '' @ show_nat pageCount"

definition stamp :: "nat \<Rightarrow> nat \<Rightarrow> pdf_page \<Rightarrow> pdf_page" where
  "stamp pageCount i page =
     page\<lparr>pg_drawn := pg_drawn page
            @ [DrawText (page_label i pageCount) 50 (pg_height page - 50) 12 (0.5, 0.5, 0.5)]\<rparr>"

definition split_step :: "nat \<Rightarrow> nat \<Rightarrow> pdf_page \<Rightarrow> lib_state \<Rightarrow> lib_state" where
  "split_step pageCount i copiedPage s =
     (let s1 = onProgress (real i / real pageCount * 90) s
      in s1\<lparr>pdfDoc := pdfDoc s1 @ [stamp pageCount i copiedPage]\<rparr>)"

definition reject :: "error \<Rightarrow> outcome" where
  "reject err = \<lparr>progress = [], console = [], result = Inl err\<rparr>"

definition splitPDF :: "uploaded_file list \<Rightarrow> outcome" where
  "splitPDF files =
     (case files of
        [] \<Rightarrow> reject (Error ''No PDF file provided'')
      | file # _ \<Rightarrow>
          (case uf_pdf file of
             None \<Rightarrow> reject LoadFailure
           | Some pages \<Rightarrow>
               finish_lib (for_each (split_step (length pages)) 0 pages start_lib)))"

subsection \<open>convertByFeature\<close>

definition comingSoon :: outcome where
  "comingSoon =
     (let d1 = draw (Text 16 (0, 0, 0) ''Feature Coming Soon!'' 20 30) new_jsPDF;
          d2 = draw (Text 12 (0, 0, 0) ''This conversion feature is under development.'' 20 50) d1;
          d3 = draw (Text 12 (0, 0, 0) ''Stay tuned for updates!'' 20 70) d2
      in \<lparr>progress = [100], console = [], result = Inr (JsPdfBlob d3)\<rparr>)"

definition convertByFeature :: "env \<Rightarrow> string \<Rightarrow> uploaded_file list \<Rightarrow> outcome" where
  "convertByFeature e featureId files =
     (if featureId = ''images-to-pdf'' then convertImagesToPDF e files
      else if featureId = ''text-to-pdf'' then convertTextToPDF e files
      else if featureId = ''merge-pdfs'' then mergePDFs files
      else if featureId = ''split-pdf'' then splitPDF files
      else if featureId = ''word-to-pdf'' then convertWordToPDF e files
      else comingSoon)"

subsection \<open>The upload component (FileUploader, handleConvert)\<close>

text \<open>
  The component that calls the conversion shows a toast and returns when no file is
  selected; otherwise it hands the files to \<^verbatim>\<open>onConvert\<close>, which the page binds to
  \<^verbatim>\<open>convertByFeature\<close> of the selected feature.
\<close>

datatype 'a submission = Toast string string | Converted 'a

definition handleConvert :: "(uploaded_file list \<Rightarrow> 'a) \<Rightarrow> uploaded_file list \<Rightarrow> 'a submission" where
  "handleConvert onConvert files =
     (if length files = 0
      then Toast ''No files selected'' ''Please upload at least one file to convert.''
      else Converted (onConvert files))"

subsection \<open>What the properties speak about\<close>

text \<open>
  An item is drawn when its image loaded with positive width and height. The page of a
  drawn item holds the placement of its image and its caption.
\<close>

definition drawn :: "uploaded_file \<Rightarrow> bool" where
  "drawn file = (case uf_image file of None \<Rightarrow> False | Some (w, h) \<Rightarrow> 0 < w \<and> 0 < h)"

definition drawn_page :: "env \<Rightarrow> uploaded_file \<Rightarrow> js_op list" where
  "drawn_page e file =
     (case uf_image file of
        None \<Rightarrow> []
      | Some (w, h) \<Rightarrow>
          (let l = imageLayout (real w) (real h) (pageWidth e) (pageHeight e) 10
           in [AddImage (originX l) (originY l) (finalWidth l) (finalHeight l),
               Text 8 (128, 128, 128) (uf_name file) 10 (pageHeight e - 5)]))"

text \<open>
  What the loop leaves on the page it opened for a file whose image loaded: the page of a
  drawn item, or nothing at all when \<^verbatim>\<open>addImage\<close> threw.
\<close>

definition page_left :: "env \<Rightarrow> uploaded_file \<Rightarrow> js_op list" where
  "page_left e file = (if drawn file then drawn_page e file else [])"

text \<open>
  The body of a text or Word document is drawn with font size 10 (the title with 16, the
  caption of an image with 8): the body lines of a document are its texts of size 10, in
  drawing order.
\<close>

fun body_text :: "js_op \<Rightarrow> string list" where
  "body_text (Text fontSize colour t x y) = (if fontSize = 10 then [t] else [])"
| "body_text (AddImage x y w h) = []"
| "body_text (Line lw x1 y1 x2 y2) = []"

definition body_lines :: "js_doc \<Rightarrow> string list" where
  "body_lines d = concat (map (\<lambda>page. concat (map body_text page)) d)"

text \<open>Two states of a jsPDF strategy with the same document.\<close>

definition same_doc :: "js_state \<Rightarrow> js_state \<Rightarrow> bool" where
  "same_doc s t = (doc s = doc t \<and> isFirstPage s = isFirstPage t)"

text \<open>Reading a decimal numeral back, to say what \<open>show_nat\<close> writes.\<close>

definition read_nat :: "string \<Rightarrow> nat" where
  "read_nat s = foldl (\<lambda>a c. 10 * a + (of_char c - 48)) 0 s"


subsection \<open>Example inputs\<close>


definition a4 :: env where
  "a4 = \<lparr>pageWidth = 210, pageHeight = 297, splitTextToSize = (\<lambda>text w. [text])\<rparr>"

definition picture :: "string \<Rightarrow> nat \<Rightarrow> nat \<Rightarrow> uploaded_file" where
  "picture name w h =
     \<lparr>uf_name = name, uf_type = ''image/png'', uf_image = Some (w, h),
      uf_text = Some [], uf_pdf = None\<rparr>"

definition corrupt :: "string \<Rightarrow> uploaded_file" where
  "corrupt name =
     \<lparr>uf_name = name, uf_type = ''image/png'', uf_image = None,
      uf_text = Some [], uf_pdf = None\<rparr>"

definition pdf_file :: "string \<Rightarrow> pdf_page list option \<Rightarrow> uploaded_file" where
  "pdf_file name parsed =
     \<lparr>uf_name = name, uf_type = ''application/pdf'', uf_image = None,
      uf_text = Some [], uf_pdf = parsed\<rparr>"

definition text_file :: "string \<Rightarrow> string \<Rightarrow> string \<Rightarrow> uploaded_file" where
  "text_file name type content =
     \<lparr>uf_name = name, uf_type = type, uf_image = None,
      uf_text = Some content, uf_pdf = None\<rparr>"

definition page_of :: "real \<Rightarrow> real \<Rightarrow> string \<Rightarrow> pdf_page" where
  "page_of w h content = \<lparr>pg_width = w, pg_height = h, pg_content = content, pg_drawn = []\<rparr>"

definition big_word_file :: uploaded_file where
  "big_word_file = text_file ''big.doc'' ''application/msword'' (replicate 5001 CHR ''a'')"



definition mixed_batch :: "uploaded_file list" where
  "mixed_batch =
     [picture ''a.png'' 400 300, corrupt ''b.png'', picture ''c.png'' 100 300,
      picture ''d.png'' 190 277]"

section \<open>Properties\<close>

subsection \<open>Image placement\<close>

lemma imageLayout_wide:
  fixes sw sh dw dh :: real
  assumes "0 < sw" "0 < sh" "0 < dh" "sw / sh > dw / dh"
  shows "dw / (sw / sh) \<le> dh"
proof -
  from assms have "dw * sh < sw * dh"
    by (simp add: field_simps)
  with assms show ?thesis
    by (simp add: field_simps)
qed

lemma imageLayout_tall:
  fixes sw sh dw dh :: real
  assumes "0 < sw" "0 < sh" "0 < dh" "\<not> sw / sh > dw / dh"
  shows "dh * (sw / sh) \<le> dw"
  using assms by (simp add: field_simps)

text \<open>
  C1. For positive source pixel dimensions and a page whose sides exceed twice the
  (non-negative) margin, the placement computed by convertImagesToPDF keeps the source
  aspect ratio, fits into the drawable area of the page, and its centred origin has
  non-negative coordinates. The code's margin is the constant 10.
\<close>

theorem imageLayout_fits:
  assumes "0 < sw" and "0 < sh" and "0 \<le> m" and "2 * m < pw" and "2 * m < ph"
  shows "finalWidth (imageLayout sw sh pw ph m) / finalHeight (imageLayout sw sh pw ph m) = sw / sh
       \<and> 0 < finalWidth (imageLayout sw sh pw ph m)
       \<and> 0 < finalHeight (imageLayout sw sh pw ph m)
       \<and> finalWidth (imageLayout sw sh pw ph m) \<le> pw - 2 * m
       \<and> finalHeight (imageLayout sw sh pw ph m) \<le> ph - 2 * m
       \<and> originX (imageLayout sw sh pw ph m) = (pw - finalWidth (imageLayout sw sh pw ph m)) / 2
       \<and> originY (imageLayout sw sh pw ph m) = (ph - finalHeight (imageLayout sw sh pw ph m)) / 2
       \<and> 0 \<le> originX (imageLayout sw sh pw ph m)
       \<and> 0 \<le> originY (imageLayout sw sh pw ph m)"
proof (cases "sw / sh > (pw - 2 * m) / (ph - 2 * m)")
  case True
  have dw: "0 < pw - 2 * m" and dh: "0 < ph - 2 * m"
    using assms by simp_all
  have h: "(pw - 2 * m) / (sw / sh) \<le> ph - 2 * m"
    using imageLayout_wide [OF assms(1,2) dh True] .
  have pos: "0 < (pw - 2 * m) / (sw / sh)"
    using assms dw by simp
  have ratio: "(pw - 2 * m) / ((pw - 2 * m) / (sw / sh)) = sw / sh"
    using assms dw by simp
  show ?thesis
    using True assms dw dh h pos ratio by (simp add: imageLayout_def Let_def)
next
  case False
  have dw: "0 < pw - 2 * m" and dh: "0 < ph - 2 * m"
    using assms by simp_all
  have w: "(ph - 2 * m) * (sw / sh) \<le> pw - 2 * m"
    using imageLayout_tall [OF assms(1,2) dh False] .
  have pos: "0 < (ph - 2 * m) * (sw / sh)"
    using assms dh by simp
  have ratio: "(ph - 2 * m) * (sw / sh) / (ph - 2 * m) = sw / sh"
    using dh by simp
  show ?thesis
    using False assms dw dh w pos ratio by (simp add: imageLayout_def Let_def)
qed

theorem imageLayout_fits_witness:
  "finalWidth (imageLayout 400 300 210 297 10) = 190
   \<and> finalHeight (imageLayout 400 300 210 297 10) = 285 / 2
   \<and> finalWidth (imageLayout 400 300 210 297 10) / finalHeight (imageLayout 400 300 210 297 10) = 400 / 300
   \<and> originX (imageLayout 400 300 210 297 10) = 10
   \<and> 0 \<le> originY (imageLayout 400 300 210 297 10)"
  using imageLayout_fits [of 400 300 10 210 297]
  by (simp add: imageLayout_def Let_def)

subsection \<open>Progress\<close>










lemma finish_js_simps:
  "progress (finish_js s) = progress s @ [100]"
  "console (finish_js s) = console s"
  "result (finish_js s) = Inr (JsPdfBlob (doc s))"
  by (simp_all add: finish_js_def onProgress_def Let_def)

lemma finish_lib_simps:
  "progress (finish_lib s) = progress s @ [100]"
  "console (finish_lib s) = console s"
  "result (finish_lib s) = Inr (PdfLibBlob (save (pdfDoc s)))"
  by (simp_all add: finish_lib_def onProgress_def Let_def)

lemma start_simps:
  "progress start_js = []" "console start_js = []" "doc start_js = [[]]" "isFirstPage start_js"
  "progress start_lib = []" "console start_lib = []" "pdfDoc start_lib = []"
  by (simp_all add: start_js_def start_lib_def new_jsPDF_def)







lemma strategies_return:
  "\<exists>b. result (convertImagesToPDF e files) = Inr b"
  "\<exists>b. result (convertTextToPDF e files) = Inr b"
  "\<exists>b. result (convertWordToPDF e files) = Inr b"
  "\<exists>b. result (mergePDFs files) = Inr b"
  "\<exists>b. result comingSoon = Inr b"
  by (simp_all add: convertImagesToPDF_def convertTextToPDF_def convertWordToPDF_def
      mergePDFs_def comingSoon_def finish_js_simps finish_lib_simps Let_def)







subsection \<open>Page count of a returned document\<close>

lemma for_each_invariant:
  assumes "\<And>i x s. P s \<Longrightarrow> P (step i x s)" and "P s"
  shows "P (for_each step i xs s)"
  using assms(2) by (induction xs arbitrary: i s) (simp_all add: assms(1))

lemma draw_nonempty: "draw c d \<noteq> []"
  by (simp add: draw_def)

lemma addPage_nonempty: "addPage d \<noteq> []"
  by (simp add: addPage_def)

lemma draw_lines_nonempty: "d \<noteq> [] \<Longrightarrow> draw_lines ph ls y d \<noteq> []"
  by (induction ph ls y d rule: draw_lines.induct) (simp_all add: draw_nonempty)

lemma image_step_nonempty: "doc s \<noteq> [] \<Longrightarrow> doc (image_step e n i f s) \<noteq> []"
  by (simp add: image_step_def onProgress_def console_error_def draw_nonempty addPage_nonempty
      Let_def split: option.splits prod.splits)

lemma render_document_nonempty: "doc (render_document e nm c s) \<noteq> []"
  by (simp add: render_document_def Let_def draw_lines_nonempty draw_nonempty)

lemma text_step_nonempty: "doc s \<noteq> [] \<Longrightarrow> doc (text_step e n i f s) \<noteq> []"
  by (simp add: text_step_def onProgress_def console_error_def render_document_nonempty
      Let_def split: option.splits)

lemma word_step_nonempty: "doc s \<noteq> [] \<Longrightarrow> doc (word_step e n i f s) \<noteq> []"
  by (simp add: word_step_def onProgress_def console_error_def render_document_nonempty
      Let_def split: option.splits)

lemma save_nonempty: "save d \<noteq> []"
  by (simp add: save_def)

lemma page_count_strategies:
  "result (convertImagesToPDF e files) = Inr b \<Longrightarrow> 0 < page_count b"
  "result (convertTextToPDF e files) = Inr b \<Longrightarrow> 0 < page_count b"
  "result (convertWordToPDF e files) = Inr b \<Longrightarrow> 0 < page_count b"
proof -
  have "doc (for_each (image_step e (length files)) 0 files start_js) \<noteq> []"
    by (rule for_each_invariant) (simp_all add: image_step_nonempty start_simps)
  then show "result (convertImagesToPDF e files) = Inr b \<Longrightarrow> 0 < page_count b"
    by (auto simp: convertImagesToPDF_def finish_js_simps)
  have "doc (for_each (text_step e (length files)) 0 files start_js) \<noteq> []"
    by (rule for_each_invariant) (simp_all add: text_step_nonempty start_simps)
  then show "result (convertTextToPDF e files) = Inr b \<Longrightarrow> 0 < page_count b"
    by (auto simp: convertTextToPDF_def finish_js_simps)
  have "doc (for_each (word_step e (length files)) 0 files start_js) \<noteq> []"
    by (rule for_each_invariant) (simp_all add: word_step_nonempty start_simps)
  then show "result (convertWordToPDF e files) = Inr b \<Longrightarrow> 0 < page_count b"
    by (auto simp: convertWordToPDF_def finish_js_simps)
qed

lemma page_count_lib: "result (finish_lib s) = Inr b \<Longrightarrow> 0 < page_count b"
  using save_nonempty [of "pdfDoc s"] by (auto simp: finish_lib_simps)

lemma page_count_mergePDFs: "result (mergePDFs files) = Inr b \<Longrightarrow> 0 < page_count b"
  unfolding mergePDFs_def by (rule page_count_lib)

lemma page_count_splitPDF: "result (splitPDF files) = Inr b \<Longrightarrow> 0 < page_count b"
  by (auto simp: splitPDF_def reject_def dest: page_count_lib split: list.splits option.splits)

lemma page_count_comingSoon: "result comingSoon = Inr b \<Longrightarrow> 0 < page_count b"
  by (auto simp: comingSoon_def Let_def draw_def new_jsPDF_def)

text \<open>
  C9. Every document a conversion call returns has at least one page: a jsPDF document
  starts with a page and never loses one, and pdf-lib's save adds a page to a document
  that has none (a merge whose items all fail, a split of a document without pages).
\<close>

theorem finalized_document_has_a_page:
  assumes "result (convertByFeature e featureId files) = Inr b"
  shows "1 \<le> page_count b"
proof -
  from assms have "0 < page_count b"
    unfolding convertByFeature_def
    by (auto dest: page_count_strategies page_count_splitPDF page_count_comingSoon
        page_count_mergePDFs split: if_splits)
  then show ?thesis by simp
qed

theorem finalized_document_has_a_page_witness:
  "result (convertByFeature a4 ''merge-pdfs'' [pdf_file ''x.pdf'' None])
     = Inr (PdfLibBlob [blank_page])
   \<and> 1 \<le> page_count (PdfLibBlob [blank_page])"
  using finalized_document_has_a_page
    [of a4 "''merge-pdfs''" "[pdf_file ''x.pdf'' None]" "PdfLibBlob [blank_page]"]
  by (simp add: convertByFeature_def mergePDFs_def merge_step_def finish_lib_def start_lib_def
      onProgress_def console_error_def save_def pdf_file_def Let_def)

subsection \<open>splitPDF looks at the first file only\<close>

text \<open>
  C10. splitPDF reads only the first item of the batch: two non-empty batches with the
  same first item give the same outcome (progress, console and result), whatever follows.
\<close>

theorem splitPDF_reads_first_item_only:
  "splitPDF (first # rest) = splitPDF (first # others)"
  by (simp add: splitPDF_def)

subsection \<open>The empty batch\<close>

lemma for_each_Nil_run:
  "convertImagesToPDF e [] = \<lparr>progress = [100], console = [], result = Inr (JsPdfBlob [[]])\<rparr>"
  "convertTextToPDF e [] = \<lparr>progress = [100], console = [], result = Inr (JsPdfBlob [[]])\<rparr>"
  "convertWordToPDF e [] = \<lparr>progress = [100], console = [], result = Inr (JsPdfBlob [[]])\<rparr>"
  "mergePDFs [] = \<lparr>progress = [100], console = [], result = Inr (PdfLibBlob [blank_page])\<rparr>"
  "splitPDF [] = reject (Error ''No PDF file provided'')"
  by (simp_all add: convertImagesToPDF_def convertTextToPDF_def convertWordToPDF_def mergePDFs_def
      splitPDF_def finish_js_def finish_lib_def start_js_def start_lib_def onProgress_def
      new_jsPDF_def save_def Let_def)

lemma comingSoon_run:
  "progress comingSoon = [100]" "\<exists>b. result comingSoon = Inr b \<and> page_count b = 1"
  by (simp_all add: comingSoon_def Let_def draw_def new_jsPDF_def)

text \<open>
  C6, as the code has it. The upload component rejects an empty selection with a toast
  and calls nothing. convertByFeature itself rejects an empty batch only for
  \<^verbatim>\<open>split-pdf\<close> (before any document is created); for every other feature identifier
  it returns a document of one page and reports progress 100.
\<close>

theorem empty_batch_only_split_rejects:
  "handleConvert (convertByFeature e featureId) [] =
     Toast ''No files selected'' ''Please upload at least one file to convert.''
   \<and> convertByFeature e ''split-pdf'' [] = reject (Error ''No PDF file provided'')
   \<and> (featureId \<noteq> ''split-pdf'' \<longrightarrow>
        progress (convertByFeature e featureId []) = [100]
        \<and> (\<exists>b. result (convertByFeature e featureId []) = Inr b \<and> page_count b = 1))"
  using comingSoon_run
  by (simp add: handleConvert_def convertByFeature_def for_each_Nil_run)

text \<open>
  The claim as stated fails: convertByFeature with \<^verbatim>\<open>images-to-pdf\<close> and no file is
  not rejected, it returns a document with one (blank) page.
\<close>

theorem empty_batch_counterexample:
  "convertByFeature a4 ''images-to-pdf'' [] =
     \<lparr>progress = [100], console = [], result = Inr (JsPdfBlob [[]])\<rparr>
   \<and> page_count (JsPdfBlob [[]]) = 1"
  by (simp add: convertByFeature_def for_each_Nil_run)

theorem empty_batch_witness:
  "convertByFeature a4 ''merge-pdfs'' [] =
     \<lparr>progress = [100], console = [], result = Inr (PdfLibBlob [blank_page])\<rparr>
   \<and> convertByFeature a4 ''split-pdf'' [] = reject (Error ''No PDF file provided'')"
  using empty_batch_only_split_rejects [of a4 "''merge-pdfs''"]
  by (simp add: convertByFeature_def for_each_Nil_run)

subsection \<open>Images: one page per image that loaded\<close>

lemma draw_last: "draw c (d @ [p]) = d @ [p @ [c]]"
  by (simp add: draw_def)

lemma draw_single: "draw c [p] = [p @ [c]]"
  by (simp add: draw_def)

lemma image_step_later:
  assumes "\<not> isFirstPage s"
  shows "doc (image_step e n i f s)
           = doc s @ (if uf_image f = None then [] else [page_left e f])
         \<and> \<not> isFirstPage (image_step e n i f s)"
  using assms
  by (auto simp add: image_step_def page_left_def drawn_def drawn_page_def onProgress_def
      console_error_def addPage_def draw_last Let_def split: option.splits prod.splits)

lemma image_step_first:
  assumes "isFirstPage s" and "doc s = [[]]"
  shows "uf_image f = None \<Longrightarrow>
           doc (image_step e n i f s) = [[]] \<and> isFirstPage (image_step e n i f s)"
    and "uf_image f \<noteq> None \<Longrightarrow>
           doc (image_step e n i f s) = [page_left e f] \<and> \<not> isFirstPage (image_step e n i f s)"
  using assms
  by (auto simp add: image_step_def page_left_def drawn_def drawn_page_def onProgress_def
      console_error_def addPage_def draw_single Let_def split: option.splits prod.splits)

lemma images_loop_later:
  "\<not> isFirstPage s \<Longrightarrow>
   doc (for_each (image_step e n) i fs s)
     = doc s @ map (page_left e) (filter (\<lambda>f. uf_image f \<noteq> None) fs)"
proof (induction fs arbitrary: i s)
  case Nil
  then show ?case by simp
next
  case (Cons f fs)
  from image_step_later [OF Cons.prems, of e n i f]
  have d: "doc (image_step e n i f s) = doc s @ (if uf_image f = None then [] else [page_left e f])"
    and b: "\<not> isFirstPage (image_step e n i f s)"
    by simp_all
  show ?case
    by (simp add: Cons.IH [OF b] d)
qed

lemma images_loop_first:
  "isFirstPage s \<Longrightarrow> doc s = [[]] \<Longrightarrow>
   doc (for_each (image_step e n) i fs s)
     = (if filter (\<lambda>f. uf_image f \<noteq> None) fs = [] then [[]]
        else map (page_left e) (filter (\<lambda>f. uf_image f \<noteq> None) fs))"
proof (induction fs arbitrary: i s)
  case Nil
  then show ?case by simp
next
  case (Cons f fs)
  show ?case
  proof (cases "uf_image f")
    case None
    from image_step_first(1) [OF Cons.prems None, of e n i]
    have d: "doc (image_step e n i f s) = [[]]" and b: "isFirstPage (image_step e n i f s)"
      by simp_all
    from None show ?thesis
      by (simp add: Cons.IH [OF b d])
  next
    case (Some wh)
    then have ne: "uf_image f \<noteq> None" by simp
    from image_step_first(2) [OF Cons.prems ne, of e n i]
    have d: "doc (image_step e n i f s) = [page_left e f]"
      and b: "\<not> isFirstPage (image_step e n i f s)"
      by simp_all
    from Some show ?thesis
      by (simp add: images_loop_later [OF b] d)
  qed
qed

text \<open>
  Every batch: the document has one page for each file whose image loaded, in batch
  order, and none for a file that failed to load. The page of a file that loaded but was
  not drawn is blank: the loop opens the page (lines 64 to 68) before \<^verbatim>\<open>addImage\<close>
  throws (line 70).
\<close>

lemma convertImagesToPDF_result:
  "result (convertImagesToPDF e files)
     = Inr (JsPdfBlob (if filter (\<lambda>f. uf_image f \<noteq> None) files = [] then [[]]
                       else map (page_left e) (filter (\<lambda>f. uf_image f \<noteq> None) files)))"
  by (simp add: convertImagesToPDF_def finish_js_simps images_loop_first start_simps)







subsection \<open>mergePDFs: concatenation\<close>

lemma merge_loop_doc:
  "pdfDoc (for_each (merge_step n) i fs s)
     = pdfDoc s @ concat (map (\<lambda>f. case uf_pdf f of None \<Rightarrow> [] | Some ps \<Rightarrow> ps) fs)"
  by (induction fs arbitrary: i s)
     (simp_all add: merge_step_def onProgress_def console_error_def Let_def split: option.splits)

lemma mergePDFs_result:
  "result (mergePDFs files)
     = Inr (PdfLibBlob (save (concat (map (\<lambda>f. case uf_pdf f of None \<Rightarrow> [] | Some ps \<Rightarrow> ps) files))))"
  by (simp add: mergePDFs_def finish_lib_simps merge_loop_doc start_simps)

lemma parsed_pages:
  "map uf_pdf files = map Some docs \<Longrightarrow>
   map (\<lambda>f. case uf_pdf f of None \<Rightarrow> [] | Some ps \<Rightarrow> ps) files = docs"
proof (induction files arbitrary: docs)
  case Nil
  then show ?case by simp
next
  case (Cons f files)
  then obtain d ds where "docs = d # ds" "uf_pdf f = Some d" "map uf_pdf files = map Some ds"
    by (cases docs) auto
  with Cons.IH [of ds] show ?case by simp
qed

text \<open>
  C4, as the code has it. When every file of the batch parses and the inputs have at
  least one page between them, mergePDFs returns the concatenation, in batch order, of
  the inputs' pages, each page as it was parsed (size, content, drawn texts). Two
  one-page inputs give exactly their two pages, in order.
\<close>

theorem mergePDFs_concatenates:
  assumes "map uf_pdf files = map Some docs" and "concat docs \<noteq> []"
  shows "result (mergePDFs files) = Inr (PdfLibBlob (concat docs))"
proof -
  from assms(2) have "save (concat docs) = concat docs"
    unfolding save_def by (rule if_not_P)
  then show ?thesis
    by (simp add: mergePDFs_result parsed_pages [OF assms(1)])
qed

theorem mergePDFs_concatenates_witness:
  "result (mergePDFs [pdf_file ''a.pdf'' (Some [page_of 595 842 ''A'']),
                      pdf_file ''b.pdf'' (Some [page_of 612 792 ''B''])])
     = Inr (PdfLibBlob [page_of 595 842 ''A'', page_of 612 792 ''B''])
   \<and> page_count (PdfLibBlob [page_of 595 842 ''A'', page_of 612 792 ''B'']) = 2"
  using mergePDFs_concatenates
    [of "[pdf_file ''a.pdf'' (Some [page_of 595 842 ''A'']),
          pdf_file ''b.pdf'' (Some [page_of 612 792 ''B''])]"
        "[[page_of 595 842 ''A''], [page_of 612 792 ''B'']]"]
  by (simp add: pdf_file_def)

text \<open>
  The claim as stated fails when the inputs have no page at all: the concatenation is
  empty, but the saved document has one blank page.
\<close>

theorem mergePDFs_counterexample:
  "result (mergePDFs [pdf_file ''empty.pdf'' (Some [])]) = Inr (PdfLibBlob [blank_page])
   \<and> result (mergePDFs []) = Inr (PdfLibBlob [blank_page])
   \<and> page_count (PdfLibBlob [blank_page]) = 1
   \<and> concat [[] :: pdf_page list] = []"
  by (simp add: mergePDFs_result save_def pdf_file_def)

subsection \<open>splitPDF: one labelled copy per page\<close>

lemma read_nat_snoc: "read_nat (s @ [c]) = 10 * read_nat s + (of_char c - 48)"
  by (simp add: read_nat_def)

lemma read_show_nat: "read_nat (show_nat n) = n"
proof (induction n rule: show_nat.induct)
  case (1 n)
  show ?case
  proof (cases "n < 10")
    case True
    then show ?thesis
      by (subst show_nat.simps) (simp add: read_nat_def)
  next
    case False
    have "n mod 10 < 10" by simp
    then have "(48 + n mod 10) mod 256 = 48 + n mod 10" by simp
    with False "1.IH" show ?thesis
      by (subst show_nat.simps) (simp add: read_nat_snoc)
  qed
qed

lemma show_nat_inj: "show_nat a = show_nat b \<Longrightarrow> a = b"
  by (metis read_show_nat)

lemma page_label_inj: "page_label i n = page_label j n \<Longrightarrow> i = j"
  by (auto simp: page_label_def dest: show_nat_inj)

lemma split_loop_doc:
  "pdfDoc (for_each (split_step n) i ps s)
     = pdfDoc s @ map (\<lambda>(k, p). stamp n k p) (enumerate i ps)"
  by (induction ps arbitrary: i s) (simp_all add: split_step_def onProgress_def Let_def)

text \<open>
  C5, as the code has it. For a batch of one file that parses into N pages, N at least 1,
  splitPDF returns a document of exactly N pages; page i (counted from 0) is source page
  i, unchanged but for the text \<open>Page (i+1) of N\<close> drawn at (50, height - 50), and the N
  labels are pairwise different.
\<close>

theorem splitPDF_labels_every_page:
  assumes "uf_pdf f = Some pages" and "pages \<noteq> []"
  shows "\<exists>out. result (splitPDF [f]) = Inr (PdfLibBlob out)
           \<and> length out = length pages
           \<and> (\<forall>i < length pages.
                out ! i = (pages ! i)\<lparr>pg_drawn := pg_drawn (pages ! i)
                  @ [DrawText (page_label i (length pages)) 50 (pg_height (pages ! i) - 50) 12
                       (0.5, 0.5, 0.5)]\<rparr>)
           \<and> distinct (map (\<lambda>i. page_label i (length pages)) [0 ..< length pages])"
proof -
  let ?out = "map (\<lambda>(k, p). stamp (length pages) k p) (enumerate 0 pages)"
  from assms(2) have "?out \<noteq> []" by (cases pages) simp_all
  then have "save ?out = ?out"
    unfolding save_def by (rule if_not_P)
  then have r: "result (splitPDF [f]) = Inr (PdfLibBlob ?out)"
    by (simp add: splitPDF_def assms(1) finish_lib_simps split_loop_doc start_simps)
  have len: "length ?out = length pages" by simp
  have nth: "\<forall>i < length pages.
      ?out ! i = (pages ! i)\<lparr>pg_drawn := pg_drawn (pages ! i)
        @ [DrawText (page_label i (length pages)) 50 (pg_height (pages ! i) - 50) 12
             (0.5, 0.5, 0.5)]\<rparr>"
    by (simp add: stamp_def nth_enumerate_eq)
  have "inj_on (\<lambda>i. page_label i (length pages)) (set [0 ..< length pages])"
    by (rule inj_onI) (rule page_label_inj)
  then have dist: "distinct (map (\<lambda>i. page_label i (length pages)) [0 ..< length pages])"
    by (simp add: distinct_map)
  from r len nth dist show ?thesis by blast
qed

lemma page_label_examples:
  "page_label 0 (Suc (Suc 0)) = ''Page 1 of 2''" "page_label (Suc 0) (Suc (Suc 0)) = ''Page 2 of 2''"
  by code_simp+

theorem splitPDF_labels_every_page_witness:
  "result (splitPDF [pdf_file ''two.pdf'' (Some [page_of 595 842 ''A'', page_of 612 792 ''B''])])
     = Inr (PdfLibBlob
         [\<lparr>pg_width = 595, pg_height = 842, pg_content = ''A'',
           pg_drawn = [DrawText ''Page 1 of 2'' 50 792 12 (0.5, 0.5, 0.5)]\<rparr>,
          \<lparr>pg_width = 612, pg_height = 792, pg_content = ''B'',
           pg_drawn = [DrawText ''Page 2 of 2'' 50 742 12 (0.5, 0.5, 0.5)]\<rparr>])"
  using splitPDF_labels_every_page
    [of "pdf_file ''two.pdf'' (Some [page_of 595 842 ''A'', page_of 612 792 ''B''])"
        "[page_of 595 842 ''A'', page_of 612 792 ''B'']"]
  by (simp add: pdf_file_def page_of_def splitPDF_def finish_lib_def start_lib_def split_step_def
      stamp_def page_label_examples onProgress_def save_def Let_def)

text \<open>
  The claim as stated fails for N = 0: a parsed document without pages gives an output of
  one blank page, not of no page.
\<close>

theorem splitPDF_counterexample:
  "result (splitPDF [pdf_file ''empty.pdf'' (Some [])]) = Inr (PdfLibBlob [blank_page])
   \<and> page_count (PdfLibBlob [blank_page]) = 1"
  by (simp add: pdf_file_def splitPDF_def finish_lib_def start_lib_def onProgress_def save_def Let_def)

subsection \<open>Items that fail\<close>

lemma for_each_console:
  assumes "\<And>i x s. console (step i x s) = console s @ c x"
  shows "console (for_each step i xs s) = console s @ concat (map c xs)"
  by (induction xs arbitrary: i s) (simp_all add: assms)

lemma logged:
  assumes "console r = concat (map c xs)" and "x \<in> set xs" and "m \<in> set (c x)"
  shows "m \<in> set (console r)"
  using assms by auto

lemma for_each_skip:
  assumes step: "\<And>i j x s t. ok x \<Longrightarrow> R s t \<Longrightarrow> R (f i x s) (g j x t)"
    and skip: "\<And>i x s t. \<not> ok x \<Longrightarrow> R s t \<Longrightarrow> R (f i x s) t"
    and start: "R s t"
  shows "R (for_each f i xs s) (for_each g j (filter ok xs) t)"
  using start
proof (induction xs arbitrary: i j s t)
  case Nil
  then show ?case by simp
next
  case (Cons x xs)
  show ?case
  proof (cases "ok x")
    case True
    with Cons.IH [OF step [OF True Cons.prems]] show ?thesis by simp
  next
    case False
    with Cons.IH [OF skip [OF False Cons.prems]] show ?thesis by simp
  qed
qed

lemma render_document_same:
  "same_doc s t \<Longrightarrow> same_doc (render_document e nm c s) (render_document e nm c t)"
  by (simp add: same_doc_def render_document_def Let_def)

lemma onProgress_same: "same_doc s t \<Longrightarrow> same_doc (onProgress v s) (onProgress w t)"
  by (simp add: same_doc_def onProgress_def)

lemma text_step_same:
  "uf_text x \<noteq> None \<Longrightarrow> same_doc s t \<Longrightarrow> same_doc (text_step e n i x s) (text_step e m j x t)"
  by (auto simp: text_step_def Let_def intro!: render_document_same onProgress_same)

lemma text_step_skip:
  "\<not> uf_text x \<noteq> None \<Longrightarrow> same_doc s t \<Longrightarrow> same_doc (text_step e n i x s) t"
  by (simp add: text_step_def Let_def same_doc_def onProgress_def console_error_def)

lemma word_step_same:
  "uf_text x \<noteq> None \<Longrightarrow> same_doc s t \<Longrightarrow> same_doc (word_step e n i x s) (word_step e m j x t)"
  by (auto simp: word_step_def Let_def intro!: render_document_same onProgress_same)

lemma word_step_skip:
  "\<not> uf_text x \<noteq> None \<Longrightarrow> same_doc s t \<Longrightarrow> same_doc (word_step e n i x s) t"
  by (simp add: word_step_def Let_def same_doc_def onProgress_def console_error_def)

lemma convertTextToPDF_skips:
  "result (convertTextToPDF e files)
     = result (convertTextToPDF e (filter (\<lambda>f. uf_text f \<noteq> None) files))"
proof -
  have "same_doc (for_each (text_step e (length files)) 0 files start_js)
          (for_each (text_step e (length (filter (\<lambda>f. uf_text f \<noteq> None) files))) 0
             (filter (\<lambda>f. uf_text f \<noteq> None) files) start_js)"
  proof (rule for_each_skip [where ok = "\<lambda>f. uf_text f \<noteq> None"])
    show "same_doc start_js start_js"
      by (simp add: same_doc_def)
  qed (rule text_step_same text_step_skip; assumption)+
  then show ?thesis
    by (simp add: convertTextToPDF_def finish_js_simps same_doc_def)
qed

lemma convertWordToPDF_skips:
  "result (convertWordToPDF e files)
     = result (convertWordToPDF e (filter (\<lambda>f. uf_text f \<noteq> None) files))"
proof -
  have "same_doc (for_each (word_step e (length files)) 0 files start_js)
          (for_each (word_step e (length (filter (\<lambda>f. uf_text f \<noteq> None) files))) 0
             (filter (\<lambda>f. uf_text f \<noteq> None) files) start_js)"
  proof (rule for_each_skip [where ok = "\<lambda>f. uf_text f \<noteq> None"])
    show "same_doc start_js start_js"
      by (simp add: same_doc_def)
  qed (rule word_step_same word_step_skip; assumption)+
  then show ?thesis
    by (simp add: convertWordToPDF_def finish_js_simps same_doc_def)
qed

lemma convertImagesToPDF_skips:
  "result (convertImagesToPDF e files)
     = result (convertImagesToPDF e (filter (\<lambda>f. uf_image f \<noteq> None) files))"
  by (simp add: convertImagesToPDF_result)

lemma parsed_only:
  "concat (map (\<lambda>f. case uf_pdf f of None \<Rightarrow> [] | Some ps \<Rightarrow> ps) (filter (\<lambda>f. uf_pdf f \<noteq> None) files))
     = concat (map (\<lambda>f. case uf_pdf f of None \<Rightarrow> [] | Some ps \<Rightarrow> ps) files)"
  by (induction files) auto

lemma mergePDFs_skips:
  "result (mergePDFs files) = result (mergePDFs (filter (\<lambda>f. uf_pdf f \<noteq> None) files))"
  by (simp only: mergePDFs_result parsed_only)

lemma image_step_console:
  "console (image_step e n i f s)
     = console s @ (case uf_image f of
                      None \<Rightarrow> [''Error processing image '' @ uf_name f @ '':'']
                    | Some (w, h) \<Rightarrow>
                        if w = 0 \<or> h = 0 then [''Error processing image '' @ uf_name f @ '':''] else [])"
  by (simp add: image_step_def onProgress_def console_error_def Let_def
      split: option.splits prod.splits)

lemma render_document_console: "console (render_document e nm c s) = console s"
  by (simp add: render_document_def Let_def)

lemma text_step_console:
  "console (text_step e n i f s)
     = console s @ (case uf_text f of
                      None \<Rightarrow> [''Error processing text file '' @ uf_name f @ '':''] | Some t \<Rightarrow> [])"
  by (simp add: text_step_def onProgress_def console_error_def render_document_console Let_def
      split: option.splits)

lemma word_step_console:
  "console (word_step e n i f s)
     = console s @ (case uf_text f of
                      None \<Rightarrow> [''Error processing document '' @ uf_name f @ '':''] | Some t \<Rightarrow> [])"
  by (simp add: word_step_def onProgress_def console_error_def render_document_console Let_def
      split: option.splits)

lemma merge_step_console:
  "console (merge_step n i f s)
     = console s @ (case uf_pdf f of
                      None \<Rightarrow> [''Error processing PDF '' @ uf_name f @ '':''] | Some t \<Rightarrow> [])"
  by (simp add: merge_step_def onProgress_def console_error_def Let_def split: option.splits)

lemma convertImagesToPDF_logs:
  assumes "f \<in> set files" and "uf_image f = None"
  shows "''Error processing image '' @ uf_name f @ '':'' \<in> set (console (convertImagesToPDF e files))"
proof (rule logged [OF _ assms(1)])
  show "console (convertImagesToPDF e files) = concat (map (\<lambda>f. case uf_image f of
                      None \<Rightarrow> [''Error processing image '' @ uf_name f @ '':'']
                    | Some (w, h) \<Rightarrow>
                        if w = 0 \<or> h = 0 then [''Error processing image '' @ uf_name f @ '':''] else []) files)"
    by (simp add: convertImagesToPDF_def finish_js_simps start_simps
        for_each_console [OF image_step_console])
  show "''Error processing image '' @ uf_name f @ '':'' \<in> set (case uf_image f of
                      None \<Rightarrow> [''Error processing image '' @ uf_name f @ '':'']
                    | Some (w, h) \<Rightarrow>
                        if w = 0 \<or> h = 0 then [''Error processing image '' @ uf_name f @ '':''] else [])"
    by (simp add: assms(2))
qed

lemma convertTextToPDF_logs:
  assumes "f \<in> set files" and "uf_text f = None"
  shows "''Error processing text file '' @ uf_name f @ '':'' \<in> set (console (convertTextToPDF e files))"
proof (rule logged [OF _ assms(1)])
  show "console (convertTextToPDF e files) = concat (map (\<lambda>f. case uf_text f of
           None \<Rightarrow> [''Error processing text file '' @ uf_name f @ '':''] | Some t \<Rightarrow> []) files)"
    by (simp add: convertTextToPDF_def finish_js_simps start_simps
        for_each_console [OF text_step_console])
  show "''Error processing text file '' @ uf_name f @ '':'' \<in> set (case uf_text f of
           None \<Rightarrow> [''Error processing text file '' @ uf_name f @ '':''] | Some t \<Rightarrow> [])"
    by (simp add: assms(2))
qed

lemma convertWordToPDF_logs:
  assumes "f \<in> set files" and "uf_text f = None"
  shows "''Error processing document '' @ uf_name f @ '':'' \<in> set (console (convertWordToPDF e files))"
proof (rule logged [OF _ assms(1)])
  show "console (convertWordToPDF e files) = concat (map (\<lambda>f. case uf_text f of
           None \<Rightarrow> [''Error processing document '' @ uf_name f @ '':''] | Some t \<Rightarrow> []) files)"
    by (simp add: convertWordToPDF_def finish_js_simps start_simps
        for_each_console [OF word_step_console])
  show "''Error processing document '' @ uf_name f @ '':'' \<in> set (case uf_text f of
           None \<Rightarrow> [''Error processing document '' @ uf_name f @ '':''] | Some t \<Rightarrow> [])"
    by (simp add: assms(2))
qed

lemma mergePDFs_logs:
  assumes "f \<in> set files" and "uf_pdf f = None"
  shows "''Error processing PDF '' @ uf_name f @ '':'' \<in> set (console (mergePDFs files))"
proof (rule logged [OF _ assms(1)])
  show "console (mergePDFs files) = concat (map (\<lambda>f. case uf_pdf f of
           None \<Rightarrow> [''Error processing PDF '' @ uf_name f @ '':''] | Some t \<Rightarrow> []) files)"
    by (simp add: mergePDFs_def finish_lib_simps start_simps
        for_each_console [OF merge_step_console])
  show "''Error processing PDF '' @ uf_name f @ '':'' \<in> set (case uf_pdf f of
           None \<Rightarrow> [''Error processing PDF '' @ uf_name f @ '':''] | Some t \<Rightarrow> [])"
    by (simp add: assms(2))
qed

text \<open>
  C7, as the code has it. In the four strategies that loop over the batch (images, text,
  Word, merge) a file that fails to load, read or parse is caught by the loop body: the
  call still returns a document, that document is the one the batch without the failing
  files gives, and the console has the error message naming the file. splitPDF has no
  such handler: when its first file does not parse, the call rejects, and nothing is
  logged.
\<close>

theorem item_failures_are_skipped:
  "(\<exists>b. result (convertImagesToPDF e files) = Inr b)
   \<and> result (convertImagesToPDF e files)
       = result (convertImagesToPDF e (filter (\<lambda>f. uf_image f \<noteq> None) files))
   \<and> (\<forall>f \<in> set files. uf_image f = None \<longrightarrow>
         ''Error processing image '' @ uf_name f @ '':'' \<in> set (console (convertImagesToPDF e files)))
   \<and> (\<exists>b. result (convertTextToPDF e files) = Inr b)
   \<and> result (convertTextToPDF e files)
       = result (convertTextToPDF e (filter (\<lambda>f. uf_text f \<noteq> None) files))
   \<and> (\<forall>f \<in> set files. uf_text f = None \<longrightarrow>
         ''Error processing text file '' @ uf_name f @ '':'' \<in> set (console (convertTextToPDF e files)))
   \<and> (\<exists>b. result (convertWordToPDF e files) = Inr b)
   \<and> result (convertWordToPDF e files)
       = result (convertWordToPDF e (filter (\<lambda>f. uf_text f \<noteq> None) files))
   \<and> (\<forall>f \<in> set files. uf_text f = None \<longrightarrow>
         ''Error processing document '' @ uf_name f @ '':'' \<in> set (console (convertWordToPDF e files)))
   \<and> (\<exists>b. result (mergePDFs files) = Inr b)
   \<and> result (mergePDFs files) = result (mergePDFs (filter (\<lambda>f. uf_pdf f \<noteq> None) files))
   \<and> (\<forall>f \<in> set files. uf_pdf f = None \<longrightarrow>
         ''Error processing PDF '' @ uf_name f @ '':'' \<in> set (console (mergePDFs files)))
   \<and> (uf_pdf first = None \<longrightarrow> splitPDF (first # rest) = reject LoadFailure)"
proof -
  have split: "uf_pdf first = None \<longrightarrow> splitPDF (first # rest) = reject LoadFailure"
    by (simp add: splitPDF_def)
  show ?thesis
    using strategies_return(1) [of e files] strategies_return(2) [of e files]
      strategies_return(3) [of e files] strategies_return(4) [of files]
      convertImagesToPDF_skips [of e files] convertTextToPDF_skips [of e files]
      convertWordToPDF_skips [of e files] mergePDFs_skips [of files]
      convertImagesToPDF_logs [of _ files e] convertTextToPDF_logs [of _ files e]
      convertWordToPDF_logs [of _ files e] mergePDFs_logs [of _ files] split
    by blast
qed

theorem item_failures_are_skipped_witness:
  "result (convertImagesToPDF a4 mixed_batch)
     = result (convertImagesToPDF a4
         [picture ''a.png'' 400 300, picture ''c.png'' 100 300, picture ''d.png'' 190 277])
   \<and> ''Error processing image b.png:'' \<in> set (console (convertImagesToPDF a4 mixed_batch))
   \<and> splitPDF [pdf_file ''broken.pdf'' None] = reject LoadFailure"
  using item_failures_are_skipped [of a4 mixed_batch "pdf_file ''broken.pdf'' None" "[]"]
  by (simp add: mixed_batch_def picture_def corrupt_def pdf_file_def)

text \<open>
  The claim as stated fails for splitPDF: the parse failure of the file propagates to the
  caller, no document is returned and the console stays empty.
\<close>

theorem splitPDF_failure_counterexample:
  "splitPDF [pdf_file ''broken.pdf'' None]
     = \<lparr>progress = [], console = [], result = Inl LoadFailure\<rparr>"
  by (simp add: splitPDF_def pdf_file_def reject_def)

subsection \<open>The cap on the text of a Word file\<close>

lemma body_lines_append: "body_lines (d @ d') = body_lines d @ body_lines d'"
  by (simp add: body_lines_def)

lemma body_lines_addPage: "body_lines (addPage d) = body_lines d"
  by (simp add: addPage_def body_lines_def)

lemma body_lines_draw:
  assumes "d \<noteq> []"
  shows "body_lines (draw c d) = body_lines d @ body_text c"
proof -
  from assms have "d = butlast d @ [last d]" by simp
  then have "body_lines d = body_lines (butlast d) @ concat (map body_text (last d))"
    by (metis (no_types, lifting) body_lines_append body_lines_def concat.simps(1,2) list.simps(8,9)
        append_Nil2)
  then show ?thesis
    by (simp add: draw_def body_lines_append) (simp add: body_lines_def)
qed

lemma body_lines_draw_lines:
  "d \<noteq> [] \<Longrightarrow> body_lines (draw_lines ph ls y d) = body_lines d @ ls"
  by (induction ph ls y d rule: draw_lines.induct)
     (simp_all add: body_lines_draw body_lines_addPage draw_nonempty addPage_nonempty)

lemma body_lines_render_document:
  assumes "doc s \<noteq> []"
  shows "body_lines (doc (render_document e name content s))
           = body_lines (doc s) @ splitTextToSize e content (pageWidth e - 2 * 20)"
  using assms
  by (simp add: render_document_def Let_def body_lines_draw_lines body_lines_draw
      body_lines_addPage draw_nonempty addPage_nonempty)

lemma body_lines_word_step:
  assumes "doc s \<noteq> []"
  shows "body_lines (doc (word_step e n i f s))
           = body_lines (doc s)
             @ (case uf_text f of
                  None \<Rightarrow> []
                | Some rawText \<Rightarrow>
                    splitTextToSize e (take 5000 (extract_text f rawText)) (pageWidth e - 2 * 20))"
  using assms
  by (simp add: word_step_def Let_def substring_def body_lines_render_document onProgress_def
      console_error_def split: option.splits)




lemma body_lines_start: "doc start_js \<noteq> []" "body_lines (doc start_js) = []"
  by (simp_all add: start_simps body_lines_def)


lemma collapse_spaces_replicate:
  "\<not> is_space c \<Longrightarrow> collapse_spaces (replicate n c) = replicate n c"
  by (induction n) simp_all

lemma trim_replicate: "\<not> is_space c \<Longrightarrow> trim (replicate n c) = replicate n c"
  by (cases n) (simp_all add: trim_def replicate_append_same)

lemma extract_readable_replicate:
  "readable c \<Longrightarrow> \<not> is_space c \<Longrightarrow> extract_readable (replicate n c) = replicate n c"
  by (simp add: extract_readable_def collapse_spaces_replicate trim_replicate)

lemma letter_a: "readable CHR ''a''" "\<not> is_space CHR ''a''"
  by (simp_all add: readable_def is_space_def)

lemma is_word: "str_includes ''application/msword'' ''word''"
  by simp

lemma big_word_file_text:
  "uf_text big_word_file = Some (replicate 5001 CHR ''a'')"
  "extract_text big_word_file (replicate 5001 CHR ''a'') = replicate 5001 CHR ''a''"
  by (simp_all add: big_word_file_def text_file_def extract_text_def is_word
      extract_readable_replicate letter_a)


text \<open>
  The claim as stated fails. For a Word file of 5001 letters, what line 279 hands to the
  line breaker is the first 5000 letters and nothing after them: no marker is appended;
  whatever the page size and the line breaker, the body lines of the returned document
  are the lines of those 5000 letters.
\<close>

lemma big_word_file_body:
  "\<exists>d. result (convertWordToPDF e [big_word_file]) = Inr (JsPdfBlob d)
       \<and> body_lines d = splitTextToSize e (replicate 5000 CHR ''a'') (pageWidth e - 2 * 20)"
  by (simp add: convertWordToPDF_def finish_js_simps body_lines_word_step body_lines_start
      big_word_file_text)



end
